theory Spec2Isabelle
  imports Complex_Main "HOL-Library.Multiset"
begin

section \<open>JavaScript values used by the two components\<close>

text \<open>
  A JavaScript number is modelled as an exact rational, or one of the three non-finite
  values. Arithmetic on finite values is exact (the rounding of IEEE doubles and the
  sign of zero are not modelled). Instants (\<open>Date\<close> values and \<open>getTime()\<close>) are
  integers, in milliseconds since the epoch.
\<close>

datatype jsnum = Fin rat | NaN | PosInf | NegInf

text \<open>The values a numeric document field such as \<open>rating\<close> can hold: the field is
  missing (\<open>undefined\<close>), \<open>null\<close>, or a number.\<close>

datatype jsval = JUndefined | JNull | JNum jsnum

fun ToNumber :: "jsval \<Rightarrow> jsnum" where
  "ToNumber JUndefined = NaN"
| "ToNumber JNull = Fin 0"
| "ToNumber (JNum n) = n"

fun truthy :: "jsval \<Rightarrow> bool" where
  "truthy JUndefined = False"
| "truthy JNull = False"
| "truthy (JNum (Fin r)) = (r \<noteq> 0)"
| "truthy (JNum NaN) = False"
| "truthy (JNum PosInf) = True"
| "truthy (JNum NegInf) = True"

text \<open>\<open>a + b\<close> on numbers.\<close>

fun js_add :: "jsnum \<Rightarrow> jsnum \<Rightarrow> jsnum" where
  "js_add (Fin a) (Fin b) = Fin (a + b)"
| "js_add NaN _ = NaN"
| "js_add _ NaN = NaN"
| "js_add PosInf NegInf = NaN"
| "js_add NegInf PosInf = NaN"
| "js_add PosInf _ = PosInf"
| "js_add _ PosInf = PosInf"
| "js_add NegInf _ = NegInf"
| "js_add _ NegInf = NegInf"

text \<open>\<open>a / b\<close> on numbers: dividing by zero raises nothing, it yields \<open>NaN\<close> or an
  infinity.\<close>

fun js_div :: "jsnum \<Rightarrow> jsnum \<Rightarrow> jsnum" where
  "js_div (Fin a) (Fin b) =
     (if b = 0 then (if a = 0 then NaN else if 0 < a then PosInf else NegInf)
      else Fin (a / b))"
| "js_div NaN _ = NaN"
| "js_div _ NaN = NaN"
| "js_div (Fin a) PosInf = Fin 0"
| "js_div (Fin a) NegInf = Fin 0"
| "js_div PosInf (Fin b) = (if 0 \<le> b then PosInf else NegInf)"
| "js_div NegInf (Fin b) = (if 0 \<le> b then NegInf else PosInf)"
| "js_div _ _ = NaN"


text \<open>\<open>a >= b\<close> and \<open>a <= b\<close> on numbers: every comparison with \<open>NaN\<close> is false.\<close>

fun js_le :: "jsnum \<Rightarrow> jsnum \<Rightarrow> bool" where
  "js_le (Fin a) (Fin b) = (a \<le> b)"
| "js_le NaN _ = False"
| "js_le _ NaN = False"
| "js_le NegInf _ = True"
| "js_le _ PosInf = True"
| "js_le _ _ = False"

definition js_ge :: "jsnum \<Rightarrow> jsnum \<Rightarrow> bool" where
  "js_ge a b = js_le b a"


text \<open>\<open>Math.ceil(a / b)\<close> for two instants' difference \<open>a\<close> and a positive constant
  \<open>b\<close>, both integers.\<close>

definition Math_ceil_div :: "int \<Rightarrow> int \<Rightarrow> int" where
  "Math_ceil_div a b = \<lceil>rat_of_int a / rat_of_int b\<rceil>"

text \<open>\<open>parseFloat(x.toFixed(1))\<close>: \<open>toFixed(1)\<close> writes the sign and then the
  \<open>n / 10\<close> nearest to the magnitude, the larger \<open>n\<close> when two are as near;
  \<open>NaN\<close> and the infinities are written by name and read back unchanged.\<close>

fun toFixed1 :: "jsnum \<Rightarrow> jsnum" where
  "toFixed1 (Fin x) =
     (if x < 0 then Fin (- (of_int \<lfloor>(- x) * 10 + 1 / 2\<rfloor> / 10))
      else Fin (of_int \<lfloor>x * 10 + 1 / 2\<rfloor> / 10))"
| "toFixed1 n = n"

text \<open>\<open>s || d\<close> on an optional string: the empty string is falsy as well.\<close>

fun str_or :: "string option \<Rightarrow> string \<Rightarrow> string" where
  "str_or None d = d"
| "str_or (Some s) d = (if s = [] then d else s)"

section \<open>Dashboard: the review aggregator\<close>

text \<open>A review document as fetched (\<open>doc.id\<close> and \<open>doc.data()\<close>). \<open>d_createdAt\<close> is
  \<open>None\<close> when the field is missing and \<open>Some s\<close> for a timestamp of \<open>s\<close> seconds.\<close>

record review_doc =
  d_id :: string
  d_name :: "string option"
  d_rating :: jsval
  d_review :: "string option"
  d_message :: "string option"
  d_createdAt :: "int option"
  d_status :: "string option"
  d_branchname :: "string option"
  d_replied :: "bool option"

text \<open>The \<open>Review\<close> interface (\<open>createdAt: { seconds }\<close> is the field \<open>rv_seconds\<close>).\<close>

record review =
  rv_id :: string
  rv_name :: string
  rv_rating :: jsnum
  rv_review :: string
  rv_seconds :: int
  rv_status :: string
  rv_branchname :: string
  rv_replied :: bool

text \<open>The object pushed onto \<open>reviewsData\<close> for one document.\<close>

definition normalize :: "review_doc \<Rightarrow> review" where
  "normalize d =
     \<lparr> rv_id = d_id d,
       rv_name = str_or (d_name d) ''Anonymous'',
       rv_rating = (if truthy (d_rating d) then ToNumber (d_rating d) else Fin 0),
       rv_review = (case d_review d of
                      Some s \<Rightarrow> if s = [] then str_or (d_message d) [] else s
                    | None \<Rightarrow> str_or (d_message d) []),
       rv_seconds = (case d_createdAt d of Some s \<Rightarrow> s | None \<Rightarrow> 0),
       rv_status = str_or (d_status d) ''pending'',
       rv_branchname = str_or (d_branchname d) [],
       rv_replied = (case d_replied d of Some b \<Rightarrow> b | None \<Rightarrow> False) \<rparr>"

text \<open>\<open>data.rating >= 1 && data.rating <= 5\<close>\<close>

definition rating_in_range :: "jsval \<Rightarrow> bool" where
  "rating_in_range v = (js_ge (ToNumber v) (Fin 1) \<and> js_le (ToNumber v) (Fin 5))"

text \<open>\<open>ratingCounts[5 - data.rating]++\<close>, reached only when the rating is in range, so
  that the key \<open>5 - rating\<close> lies between 0 and 4. A key that is not an integer is not an
  array index: the increment then writes a property of that name and leaves the five
  elements of the array as they were.\<close>

definition incr_at :: "nat list \<Rightarrow> rat \<Rightarrow> nat list" where
  "incr_at counts key =
     (if key = of_int \<lfloor>key\<rfloor> \<and> 0 \<le> key \<and> nat \<lfloor>key\<rfloor> < length counts
      then counts[nat \<lfloor>key\<rfloor> := Suc (counts ! nat \<lfloor>key\<rfloor>)]
      else counts)"

definition count_rating :: "nat list \<Rightarrow> jsval \<Rightarrow> nat list" where
  "count_rating counts v =
     (if rating_in_range v
      then (case ToNumber v of Fin r \<Rightarrow> incr_at counts (5 - r) | _ \<Rightarrow> counts)
      else counts)"

text \<open>The loop variables of \<open>querySnapshot.forEach\<close>: \<open>reviewsData\<close>, \<open>totalRating\<close>
  and \<open>ratingCounts\<close>.\<close>

record agg =
  reviewsData :: "review list"
  totalRating :: jsnum
  ratingCounts :: "nat list"

definition agg_init :: agg where
  "agg_init = \<lparr> reviewsData = [], totalRating = Fin 0, ratingCounts = [0, 0, 0, 0, 0] \<rparr>"

text \<open>One run of the callback. \<open>totalRating += data.rating\<close> adds the raw field, not
  the defaulted rating of the pushed object.\<close>

definition forEach_step :: "agg \<Rightarrow> review_doc \<Rightarrow> agg" where
  "forEach_step a d =
     \<lparr> reviewsData = reviewsData a @ [normalize d],
       totalRating = js_add (totalRating a) (ToNumber (d_rating d)),
       ratingCounts = count_rating (ratingCounts a) (d_rating d) \<rparr>"

fun forEach :: "agg \<Rightarrow> review_doc list \<Rightarrow> agg" where
  "forEach a [] = a"
| "forEach a (d # ds) = forEach (forEach_step a d) ds"

text \<open>\<open>Array.prototype.sort(compare)\<close>: a stable sort; \<open>a\<close> stays before \<open>b\<close> unless
  \<open>compare(a, b) > 0\<close>.\<close>

fun js_insert :: "('a \<Rightarrow> 'a \<Rightarrow> int) \<Rightarrow> 'a \<Rightarrow> 'a list \<Rightarrow> 'a list" where
  "js_insert cmp x [] = [x]"
| "js_insert cmp x (y # ys) =
     (if cmp x y \<le> 0 then x # y # ys else y # js_insert cmp x ys)"

fun js_sort :: "('a \<Rightarrow> 'a \<Rightarrow> int) \<Rightarrow> 'a list \<Rightarrow> 'a list" where
  "js_sort cmp [] = []"
| "js_sort cmp (x # xs) = js_insert cmp x (js_sort cmp xs)"

text \<open>\<open>(a, b) => b.createdAt.seconds - a.createdAt.seconds\<close>\<close>

definition by_recency :: "review \<Rightarrow> review \<Rightarrow> int" where
  "by_recency a b = rv_seconds b - rv_seconds a"

text \<open>The \<open>stats\<close> state of the dashboard.\<close>

record stats =
  totalReviews :: nat
  averageRating :: jsnum
  linkClicks :: int
  responseRate :: int
  ratingDistribution :: "nat list"

text \<open>What the handler derives from the fetched documents: the sorted list given to
  \<open>setReviews\<close> and the three fields given to \<open>setStats\<close>.\<close>

definition sorted_reviews :: "review_doc list \<Rightarrow> review list" where
  "sorted_reviews ds = js_sort by_recency (reviewsData (forEach agg_init ds))"

definition total_of :: "review_doc list \<Rightarrow> nat" where
  "total_of ds = length (reviewsData (forEach agg_init ds))"

definition average_of :: "review_doc list \<Rightarrow> jsnum" where
  "average_of ds =
     (if 0 < total_of ds
      then toFixed1 (js_div (totalRating (forEach agg_init ds)) (Fin (of_nat (total_of ds))))
      else Fin 0)"

definition distribution_of :: "review_doc list \<Rightarrow> nat list" where
  "distribution_of ds = ratingCounts (forEach agg_init ds)"


section \<open>User documents and fetches\<close>

text \<open>A timestamp field of the user document, as the code tells the cases apart:
  \<^item> \<open>TsMissing\<close>: the field is missing, \<open>null\<close> or another falsy value;
  \<^item> \<open>Convertible t\<close>: a value with a \<open>toDate()\<close> method that returns the instant \<open>t\<close>
    (milliseconds);
  \<^item> \<open>RawSeconds n\<close>: a plain record \<open>{ seconds: n }\<close> with no \<open>toDate\<close>;
  \<^item> \<open>ToDateNotCallable\<close>: a record whose \<open>toDate\<close> entry is truthy but is no function;
  \<^item> \<open>TsOther\<close>: any other truthy value, with neither a \<open>toDate\<close> nor a \<open>seconds\<close>.\<close>

datatype tsval = TsMissing | Convertible int | RawSeconds int | ToDateNotCallable | TsOther

record business_info =
  bi_businessName :: "string option"
  bi_linkClicks :: "int option"
  bi_responseRate :: "int option"

record user_data =
  businessInfo :: "business_info option"
  trialEndDate :: tsval
  subscriptionActive :: "bool option"
  subscriptionEndDate :: tsval
  subscriptionPlan :: "string option"

text \<open>What \<open>await getDoc(ref)\<close> gives: the promise rejects, or the snapshot does not
  exist, or it holds the document's data.\<close>

datatype 'a fetched = Rejected | NoDocument | Document 'a

datatype js_error = FetchError | TypeError

section \<open>Sidebar: the status deriver\<close>

record trial_info =
  ti_daysLeft :: int
  isTrial :: bool
  trialEnded :: bool
  hasSubscription :: bool

record subscription_info =
  planName :: string
  sub_daysLeft :: int
  endDate :: "int option"
  isActive :: bool

datatype log_entry = Log string | LogError string js_error

text \<open>The state the sidebar holds (\<open>useState\<close>), the console, and the locations the
  sidebar has sent the browser to.\<close>

record sidebar =
  trialInfo :: trial_info
  subscription :: subscription_info
  sheetOpen :: bool
  settingsOpen :: bool
  console :: "log_entry list"
  redirects :: "string list"

definition sidebar_init :: sidebar where
  "sidebar_init =
     \<lparr> trialInfo = \<lparr> ti_daysLeft = 0, isTrial = False, trialEnded = False,
                      hasSubscription = False \<rparr>,
       subscription = \<lparr> planName = [], sub_daysLeft = 0, endDate = None, isActive = False \<rparr>,
       sheetOpen = False, settingsOpen = False, console = [], redirects = [] \<rparr>"

text \<open>Statements that run on the sidebar's state and either complete with a value or
  throw.\<close>

type_synonym 'a prog = "sidebar \<Rightarrow> (js_error + 'a) \<times> sidebar"

definition js_return :: "'a \<Rightarrow> 'a prog" where
  "js_return x = (\<lambda>s. (Inr x, s))"

definition js_throw :: "js_error \<Rightarrow> 'a prog" where
  "js_throw e = (\<lambda>s. (Inl e, s))"

definition js_bind :: "'a prog \<Rightarrow> ('a \<Rightarrow> 'b prog) \<Rightarrow> 'b prog" where
  "js_bind m f = (\<lambda>s. case m s of (Inl e, s') \<Rightarrow> (Inl e, s') | (Inr x, s') \<Rightarrow> f x s')"

definition js_lift :: "js_error + 'a \<Rightarrow> 'a prog" where
  "js_lift r = (\<lambda>s. (r, s))"

definition try_catch :: "unit prog \<Rightarrow> (js_error \<Rightarrow> unit prog) \<Rightarrow> unit prog" where
  "try_catch m h = (\<lambda>s. case m s of (Inl e, s') \<Rightarrow> h e s' | (Inr x, s') \<Rightarrow> (Inr x, s'))"

definition setTrialInfo :: "trial_info \<Rightarrow> unit prog" where
  "setTrialInfo t = (\<lambda>s. (Inr (), s\<lparr>trialInfo := t\<rparr>))"

definition setSubscription :: "subscription_info \<Rightarrow> unit prog" where
  "setSubscription b = (\<lambda>s. (Inr (), s\<lparr>subscription := b\<rparr>))"

definition console_log :: "string \<Rightarrow> unit prog" where
  "console_log m = (\<lambda>s. (Inr (), s\<lparr>console := console s @ [Log m]\<rparr>))"

definition console_error :: "string \<Rightarrow> js_error \<Rightarrow> unit prog" where
  "console_error m e = (\<lambda>s. (Inr (), s\<lparr>console := console s @ [LogError m e]\<rparr>))"

text \<open>The local \<open>Date | null\<close> read from a timestamp field:
  \<^verbatim>\<open>if (f?.toDate) d = f.toDate() else if (f?.seconds) d = new Date(f.seconds * 1000)\<close>.
  The test \<open>f?.seconds\<close> is a truthiness test, so zero seconds leave \<open>null\<close>.\<close>

fun read_timestamp :: "tsval \<Rightarrow> js_error + int option" where
  "read_timestamp TsMissing = Inr None"
| "read_timestamp (Convertible t) = Inr (Some t)"
| "read_timestamp (RawSeconds n) = Inr (if n \<noteq> 0 then Some (n * 1000) else None)"
| "read_timestamp ToDateNotCallable = Inl TypeError"
| "read_timestamp TsOther = Inr None"

definition ms_per_day :: int where
  "ms_per_day = 1000 * 60 * 60 * 24"

text \<open>The three outcomes of \<open>checkUserStatus\<close>, each a pair of state updates in the
  order of the source.\<close>

definition set_subscribed :: "string \<Rightarrow> int \<Rightarrow> int \<Rightarrow> unit prog" where
  "set_subscribed plan e now =
     js_bind
       (setSubscription \<lparr> planName = plan, sub_daysLeft = Math_ceil_div (e - now) ms_per_day,
                          endDate = Some e, isActive = True \<rparr>)
       (\<lambda>_. setTrialInfo \<lparr> ti_daysLeft = 0, isTrial = False, trialEnded = False,
                            hasSubscription = True \<rparr>)"

definition set_trial :: "int \<Rightarrow> int \<Rightarrow> unit prog" where
  "set_trial t now =
     js_bind
       (setTrialInfo \<lparr> ti_daysLeft = Math_ceil_div (t - now) ms_per_day, isTrial = True,
                       trialEnded = False, hasSubscription = False \<rparr>)
       (\<lambda>_. setSubscription \<lparr> planName = [], sub_daysLeft = 0, endDate = None,
                               isActive = False \<rparr>)"

definition set_expired :: "unit prog" where
  "set_expired =
     js_bind
       (setTrialInfo \<lparr> ti_daysLeft = 0, isTrial = False, trialEnded = True,
                       hasSubscription = False \<rparr>)
       (\<lambda>_. setSubscription \<lparr> planName = [], sub_daysLeft = 0, endDate = None,
                               isActive = False \<rparr>)"

text \<open>The body of the \<open>try\<close> block of \<open>checkUserStatus\<close>; \<open>now\<close> is \<open>new Date()\<close>.\<close>

definition checkUserStatus_try :: "user_data fetched \<Rightarrow> int \<Rightarrow> unit prog" where
  "checkUserStatus_try userSnap now =
     (case userSnap of
        Rejected \<Rightarrow> js_throw FetchError
      | NoDocument \<Rightarrow> console_log ''No user document found''
      | Document userData \<Rightarrow>
          js_bind (js_lift (read_timestamp (trialEndDate userData))) (\<lambda>trialEnd.
          js_bind (js_lift (read_timestamp (subscriptionEndDate userData))) (\<lambda>subEnd.
            (case (if subscriptionActive userData = Some True then subEnd else None) of
               Some e \<Rightarrow> set_subscribed (str_or (subscriptionPlan userData) []) e now
             | None \<Rightarrow>
                 (case trialEnd of
                    Some t \<Rightarrow> if now < t then set_trial t now else set_expired
                  | None \<Rightarrow> set_expired)))))"

definition checkUserStatus :: "user_data fetched \<Rightarrow> int \<Rightarrow> unit prog" where
  "checkUserStatus userSnap now =
     try_catch (checkUserStatus_try userSnap now)
       (\<lambda>e. console_error ''Error checking user status:'' e)"

text \<open>\<open>handleLogout\<close>, once \<open>signOut\<close> has resolved.\<close>

definition handleLogout :: "sidebar \<Rightarrow> sidebar" where
  "handleLogout s = s\<lparr>redirects := redirects s @ [''/login'']\<rparr>"

section \<open>Sidebar: the navigation renderer\<close>

record sub_link =
  sl_name :: string
  sl_href :: string

record nav_link =
  name :: string
  href :: string
  subLinks :: "sub_link list option"

definition businessLinks :: "nav_link list" where
  "businessLinks =
     [ \<lparr> name = ''Dashboard'', href = ''/components/business/dashboard'', subLinks = None \<rparr>,
       \<lparr> name = ''Reviews'', href = ''/components/business/reviews'', subLinks = None \<rparr>,
       \<lparr> name = ''Review Link'', href = ''/components/business/review-link'',
         subLinks = None \<rparr>,
       \<lparr> name = ''Settings'', href = ''/components/business/settings'',
         subLinks = Some
           [ \<lparr> sl_name = ''Account'', sl_href = ''/components/business/settings/account'' \<rparr>,
             \<lparr> sl_name = ''Locations'', sl_href = ''/components/business/settings/location'' \<rparr>,
             \<lparr> sl_name = ''Business Users'',
               sl_href = ''/components/business/settings/businessusers'' \<rparr> ] \<rparr> ]"

text \<open>\<open>s.includes(p)\<close> on strings.\<close>

fun includes_str :: "string \<Rightarrow> string \<Rightarrow> bool" where
  "includes_str [] p = (p = [])"
| "includes_str (c # cs) p = (take (length p) (c # cs) = p \<or> includes_str cs p)"

definition isSettingsActive :: "string \<Rightarrow> bool" where
  "isSettingsActive pathname = includes_str pathname ''/settings''"

definition shouldKeepSettingsOpen :: "string \<Rightarrow> bool" where
  "shouldKeepSettingsOpen pathname =
     list_ex (\<lambda>link. case subLinks link of
                        None \<Rightarrow> False
                      | Some subs \<Rightarrow> list_ex (\<lambda>subLink. pathname = sl_href subLink) subs)
       businessLinks"

text \<open>\<open>trialInfo.trialEnded && !subscription.isActive && link.name !== "Settings"\<close>\<close>

definition isDisabled :: "sidebar \<Rightarrow> nav_link \<Rightarrow> bool" where
  "isDisabled s link =
     (trialEnded (trialInfo s) \<and> \<not> isActive (subscription s) \<and> name link \<noteq> ''Settings'')"

text \<open>The three class names an entry can get; the active one wins over the disabled
  one.\<close>

datatype entry_style = ActiveStyle | DisabledStyle | HoverStyle

definition entry_style_of :: "string \<Rightarrow> sidebar \<Rightarrow> nav_link \<Rightarrow> entry_style" where
  "entry_style_of pathname s link =
     (if pathname = href link \<or> (name link = ''Settings'' \<and> isSettingsActive pathname)
      then ActiveStyle
      else if isDisabled s link then DisabledStyle else HoverStyle)"

text \<open>What one entry renders to: a \<open>Link\<close> with its target, or a \<open>button\<close> with its
  \<open>disabled\<close> attribute and the targets of the sub-entries shown under it.\<close>

datatype rendered =
    RLink string entry_style
  | RButton bool entry_style "string list"

definition render_entry :: "string \<Rightarrow> sidebar \<Rightarrow> nav_link \<Rightarrow> rendered" where
  "render_entry pathname s link =
     (case subLinks link of
        None \<Rightarrow>
          RLink (if isDisabled s link then ''#'' else href link) (entry_style_of pathname s link)
      | Some subs \<Rightarrow>
          RButton (isDisabled s link) (entry_style_of pathname s link)
            (if name link = ''Settings'' \<and> (settingsOpen s \<or> shouldKeepSettingsOpen pathname)
             then map sl_href subs else []))"

text \<open>A click on an entry: the location navigated to, if any, and the state after the
  \<open>onClick\<close> handler. A \<open>Link\<close> whose handler calls \<open>preventDefault\<close> does not
  navigate.\<close>

definition click_entry :: "sidebar \<Rightarrow> nav_link \<Rightarrow> string option \<times> sidebar" where
  "click_entry s link =
     (case subLinks link of
        None \<Rightarrow>
          if isDisabled s link then (None, s)
          else (Some (href link), s\<lparr>sheetOpen := False\<rparr>)
      | Some subs \<Rightarrow>
          if isDisabled s link then (None, s)
          else if name link = ''Settings'' then (None, s\<lparr>settingsOpen := \<not> settingsOpen s\<rparr>)
          else (None, s))"

definition click_sub_link :: "sidebar \<Rightarrow> sub_link \<Rightarrow> string option \<times> sidebar" where
  "click_sub_link s subLink = (Some (sl_href subLink), s\<lparr>sheetOpen := False\<rparr>)"

section \<open>Dashboard: the access guard and the loader\<close>

text \<open>\<open>checkSubscription\<close>: nothing catches what it throws. The trial test
  \<open>userData.trialEndDate && userData.trialEndDate.toDate() > now\<close> calls \<open>toDate\<close> on
  every truthy value.\<close>

definition checkSubscription :: "user_data fetched \<Rightarrow> int \<Rightarrow> js_error + bool" where
  "checkSubscription userSnap now =
     (case userSnap of
        Rejected \<Rightarrow> Inl FetchError
      | NoDocument \<Rightarrow> Inr False
      | Document userData \<Rightarrow>
          if subscriptionActive userData = Some True then Inr True
          else (case trialEndDate userData of
                  TsMissing \<Rightarrow> Inr False
                | Convertible t \<Rightarrow> Inr (now < t)
                | RawSeconds n \<Rightarrow> Inl TypeError
                | ToDateNotCallable \<Rightarrow> Inl TypeError
                | TsOther \<Rightarrow> Inl TypeError))"

text \<open>The auth-state callback of \<open>useSubscriptionStatus\<close>: the locations it navigates
  to, or the error its promise rejects with.\<close>

definition guard_onAuth :: "string option \<Rightarrow> user_data fetched \<Rightarrow> int \<Rightarrow> js_error + string list"
  where
  "guard_onAuth user userSnap now =
     (case user of
        None \<Rightarrow> Inr []
      | Some uid \<Rightarrow>
          (case checkSubscription userSnap now of
             Inl e \<Rightarrow> Inl e
           | Inr hasActiveAccess \<Rightarrow> Inr (if \<not> hasActiveAccess then [''/pricing''] else [])))"

record dashboard =
  businessName :: string
  loading :: bool
  reviews :: "review list"
  stats :: stats
  navigations :: "string list"
  dash_console :: "log_entry list"

definition dashboard_init :: dashboard where
  "dashboard_init =
     \<lparr> businessName = [], loading = True, reviews = [],
       stats = \<lparr> totalReviews = 0, averageRating = Fin 0, linkClicks = 0, responseRate = 0,
                 ratingDistribution = [0, 0, 0, 0, 0] \<rparr>,
       navigations = [], dash_console = [] \<rparr>"

fun int_or :: "int option \<Rightarrow> int \<Rightarrow> int" where
  "int_or None d = d"
| "int_or (Some n) d = (if n = 0 then d else n)"

text \<open>The auth-state callback of \<open>BusinessDashboard\<close>. \<open>reviewDocs\<close> is what
  \<open>getDocs\<close> gives: \<open>None\<close> when the promise rejects.\<close>

definition loader_onAuth ::
  "string option \<Rightarrow> user_data fetched \<Rightarrow> review_doc list option \<Rightarrow> dashboard \<Rightarrow> dashboard"
  where
  "loader_onAuth user userDoc reviewDocs st =
     (case user of
        None \<Rightarrow> st\<lparr>navigations := navigations st @ [''/login'']\<rparr>
      | Some uid \<Rightarrow>
          (case userDoc of
             Rejected \<Rightarrow>
               st\<lparr>dash_console := dash_console st @ [LogError ''Error fetching data:'' FetchError],
                  loading := False\<rparr>
           | NoDocument \<Rightarrow>
               st\<lparr>navigations := navigations st @ [''/login''], loading := False\<rparr>
           | Document userData \<Rightarrow>
               (let st1 = st\<lparr>businessName :=
                               (case businessInfo userData of
                                  None \<Rightarrow> []
                                | Some b \<Rightarrow> str_or (bi_businessName b) []),
                             stats := (stats st)
                               \<lparr>linkClicks :=
                                  (case businessInfo userData of
                                     None \<Rightarrow> 0
                                   | Some b \<Rightarrow> int_or (bi_linkClicks b) 0),
                                responseRate :=
                                  (case businessInfo userData of
                                     None \<Rightarrow> 0
                                   | Some b \<Rightarrow> int_or (bi_responseRate b) 0)\<rparr>\<rparr>
                in case reviewDocs of
                     None \<Rightarrow>
                       st1\<lparr>dash_console :=
                             dash_console st1 @ [LogError ''Error fetching data:'' FetchError],
                           loading := False\<rparr>
                   | Some ds \<Rightarrow>
                       st1\<lparr>reviews := sorted_reviews ds,
                           stats := (stats st1)
                             \<lparr>totalReviews := total_of ds,
                              averageRating := average_of ds,
                              ratingDistribution := distribution_of ds\<rparr>,
                           loading := False\<rparr>)))"

section \<open>Inputs used in the examples\<close>

definition example_doc :: "string \<Rightarrow> jsval \<Rightarrow> int option \<Rightarrow> review_doc" where
  "example_doc i r c =
     \<lparr> d_id = i, d_name = None, d_rating = r, d_review = None, d_message = None,
       d_createdAt = c, d_status = None, d_branchname = None, d_replied = None \<rparr>"

definition example_user :: "tsval \<Rightarrow> bool option \<Rightarrow> tsval \<Rightarrow> string option \<Rightarrow> user_data" where
  "example_user trial active subEnd plan =
     \<lparr> businessInfo = None, trialEndDate = trial, subscriptionActive = active,
       subscriptionEndDate = subEnd, subscriptionPlan = plan \<rparr>"

section \<open>Notation for the properties\<close>



section \<open>Review aggregator: properties\<close>

lemma reviewsData_forEach: "reviewsData (forEach a ds) = reviewsData a @ map normalize ds"
  by (induction ds arbitrary: a) (simp_all add: forEach_step_def)

lemma total_of_length: "total_of ds = length ds"
  by (simp add: total_of_def reviewsData_forEach agg_init_def)








lemma mset_js_insert: "mset (js_insert cmp x ys) = add_mset x (mset ys)"
  by (induction ys) simp_all

lemma mset_js_sort: "mset (js_sort cmp xs) = mset xs"
  by (induction xs) (simp_all add: mset_js_insert)

lemma set_js_insert: "set (js_insert cmp x ys) = insert x (set ys)"
  by (induction ys) auto

lemma sorted_js_insert:
  "sorted_wrt (\<lambda>a b. rv_seconds b \<le> rv_seconds a) ys \<Longrightarrow>
   sorted_wrt (\<lambda>a b. rv_seconds b \<le> rv_seconds a) (js_insert by_recency x ys)"
  by (induction ys) (auto simp: set_js_insert by_recency_def)

lemma sorted_js_sort:
  "sorted_wrt (\<lambda>a b. rv_seconds b \<le> rv_seconds a) (js_sort by_recency xs)"
  by (induction xs) (simp_all add: sorted_js_insert)

lemma seconds_js_sort:
  "map rv_seconds (js_sort by_recency xs) = rev (sort (map rv_seconds xs))"
proof -
  let ?out = "map rv_seconds (js_sort by_recency xs)"
  have "sorted_wrt (\<lambda>a b. b \<le> a) ?out"
    using sorted_js_sort[of xs] by (simp add: sorted_wrt_map)
  then have "sorted (rev ?out)"
    by (simp add: sorted_wrt_rev)
  moreover have "mset (rev ?out) = mset (map rv_seconds xs)"
    using mset_js_sort[of by_recency xs] by (metis mset_map mset_rev)
  ultimately have "sort (map rv_seconds xs) = rev ?out"
    by (simp add: properties_for_sort)
  then show ?thesis by simp
qed

lemma floor_rat_numeral: "\<lfloor>numeral a / numeral b :: rat\<rfloor> = numeral a div numeral b"
  using floor_divide_of_int_eq[of "numeral a" "numeral b", where ?'a = rat] by simp




text \<open>C9. For every list of normalized reviews, the list that \<open>sort\<close> returns is in
  descending order of \<open>createdAt.seconds\<close> and holds the same reviews; the seconds of the
  output are therefore the seconds of the input in descending order, whatever the order
  among equal ones. The dashboard sorts the normalized documents this way.\<close>

theorem reviews_sorted_by_recency:
  "sorted_wrt (\<lambda>a b. rv_seconds b \<le> rv_seconds a) (js_sort by_recency rs) \<and>
   mset (js_sort by_recency rs) = mset rs \<and>
   map rv_seconds (js_sort by_recency rs) = rev (sort (map rv_seconds rs)) \<and>
   sorted_reviews ds = js_sort by_recency (map normalize ds)"
  by (simp add: sorted_reviews_def sorted_js_sort mset_js_sort seconds_js_sort
      reviewsData_forEach agg_init_def)

text \<open>C9 on reviews created at 100, 300 and 200 seconds.\<close>

theorem reviews_sorted_witness:
  "map rv_seconds
     (js_sort by_recency
        (map normalize
           [example_doc ''a'' (JNum (Fin 5)) (Some 100),
            example_doc ''b'' (JNum (Fin 4)) (Some 300),
            example_doc ''c'' (JNum (Fin 4)) (Some 200)])) = [300, 200, 100]"
  using reviews_sorted_by_recency[of
      "map normalize
           [example_doc ''a'' (JNum (Fin 5)) (Some 100),
            example_doc ''b'' (JNum (Fin 4)) (Some 300),
            example_doc ''c'' (JNum (Fin 4)) (Some 200)]"]
  by (simp add: normalize_def example_doc_def)




text \<open>C2. The average rating on a 5-star review followed by a review with no rating:
  the sum adds the raw field, \<open>5 + undefined\<close>, so the average is \<open>NaN\<close>, although the
  review pushed onto the list has the rating defaulted to 0 and the average with that
  default would be 2.5. On the ratings 5, 4, 4 the average is 4.3, and on no review it
  is 0.\<close>

theorem average_missing_rating:
  "average_of [example_doc ''a'' (JNum (Fin 5)) None, example_doc ''b'' JUndefined None] = NaN \<and>
   rv_rating (normalize (example_doc ''b'' JUndefined None)) = Fin 0 \<and>
   toFixed1 (js_div (Fin (5 + 0)) (Fin 2)) = Fin (5 / 2) \<and>
   average_of [example_doc ''a'' (JNum (Fin 5)) None, example_doc ''b'' (JNum (Fin 4)) None,
               example_doc ''c'' (JNum (Fin 4)) None] = Fin (43 / 10) \<and>
   average_of [] = Fin 0"
  by (simp add: average_of_def total_of_def agg_init_def forEach_step_def
      normalize_def example_doc_def floor_rat_numeral)

lemma totalRating_numbers:
  "totalRating a = Fin x \<Longrightarrow> map d_rating ds = map (\<lambda>r. JNum (Fin r)) rs \<Longrightarrow>
   totalRating (forEach a ds) = Fin (x + sum_list rs)"
proof (induction ds arbitrary: a x rs)
  case Nil
  then show ?case by simp
next
  case (Cons d ds)
  then obtain r rs' where rs: "rs = r # rs'" "d_rating d = JNum (Fin r)"
    "map d_rating ds = map (\<lambda>r. JNum (Fin r)) rs'"
    by (cases rs) auto
  have "totalRating (forEach_step a d) = Fin (x + r)"
    using Cons.prems(1) rs(2) by (simp add: forEach_step_def)
  from Cons.IH[OF this rs(3)] show ?case
    by (simp add: rs(1) add.assoc)
qed

text \<open>When every rating is a finite number, the average is the sum over the count, passed
  through \<open>toFixed(1)\<close>, whose result is a number of tenths at most 0.05 away.\<close>

lemma average_of_numbers:
  assumes "map d_rating ds = map (\<lambda>r. JNum (Fin r)) rs" and "ds \<noteq> []"
  shows "average_of ds = toFixed1 (Fin (sum_list rs / of_nat (length ds)))"
proof -
  have "totalRating (forEach agg_init ds) = Fin (0 + sum_list rs)"
    by (rule totalRating_numbers[OF _ assms(1)]) (simp add: agg_init_def)
  then show ?thesis using assms(2)
    by (simp add: average_of_def total_of_length)
qed

lemma toFixed1_nearest:
  assumes "toFixed1 (Fin x) = Fin y"
  shows "(\<exists>n::int. y = of_int n / 10) \<and> \<bar>y - x\<bar> \<le> 1 / 20"
proof (cases "x < 0")
  case True
  define n where "n = \<lfloor>(- x) * 10 + 1 / 2\<rfloor>"
  have y: "y = - (of_int n / 10)" using assms True by (simp add: n_def)
  have "of_int n \<le> (- x) * 10 + 1 / 2" "(- x) * 10 + 1 / 2 < of_int n + 1"
    unfolding n_def by linarith+
  then have "\<bar>y - x\<bar> \<le> 1 / 20" unfolding y by linarith
  moreover have "y = of_int (- n) / 10" unfolding y by simp
  ultimately show ?thesis by blast
next
  case False
  define n where "n = \<lfloor>x * 10 + 1 / 2\<rfloor>"
  have y: "y = of_int n / 10" using assms False by (simp add: n_def)
  have "of_int n \<le> x * 10 + 1 / 2" "x * 10 + 1 / 2 < of_int n + 1"
    unfolding n_def by linarith+
  then have "\<bar>y - x\<bar> \<le> 1 / 20" unfolding y by linarith
  then show ?thesis using y by blast
qed

section \<open>Status deriver: properties\<close>


text \<open>The outcome of \<open>checkUserStatus\<close> on a document whose timestamps are read
  without an error.\<close>

lemma checkUserStatus_document:
  assumes "read_timestamp (trialEndDate u) = Inr trialEnd"
    and "read_timestamp (subscriptionEndDate u) = Inr subEnd"
  shows "checkUserStatus (Document u) now s =
     (case (if subscriptionActive u = Some True then subEnd else None) of
        Some e \<Rightarrow> set_subscribed (str_or (subscriptionPlan u) []) e now s
      | None \<Rightarrow>
          (case trialEnd of
             Some t \<Rightarrow> if now < t then set_trial t now s else set_expired s
           | None \<Rightarrow> set_expired s))"
  using assms
  by (simp add: checkUserStatus_def checkUserStatus_try_def try_catch_def js_bind_def
      js_lift_def set_subscribed_def set_trial_def set_expired_def setTrialInfo_def
      setSubscription_def split: option.splits)



lemma set_expired_state:
  "set_expired s =
     (Inr (), s\<lparr>trialInfo := \<lparr> ti_daysLeft = 0, isTrial = False, trialEnded = True,
                       hasSubscription = False \<rparr>,
               subscription := \<lparr> planName = [], sub_daysLeft = 0, endDate = None,
                               isActive = False \<rparr>\<rparr>)"
  by (simp add: set_expired_def js_bind_def setSubscription_def setTrialInfo_def)

lemma set_progs_complete:
  "fst (set_subscribed plan e now s) = Inr ()"
  "fst (set_trial t now s) = Inr ()"
  "fst (set_expired s) = Inr ()"
  by (simp_all add: set_subscribed_def set_trial_def set_expired_def js_bind_def
      setSubscription_def setTrialInfo_def)

text \<open>The \<open>try\<close> block throws exactly when the fetch is rejected or a \<open>toDate\<close>
  that is no function is called.\<close>

lemma try_throws_iff:
  "fst (checkUserStatus_try userSnap now s) = Inl e \<longleftrightarrow>
     (userSnap = Rejected \<and> e = FetchError) \<or>
     (\<exists>u. userSnap = Document u \<and> e = TypeError \<and>
        (trialEndDate u = ToDateNotCallable \<or> subscriptionEndDate u = ToDateNotCallable))"
proof (cases userSnap)
  case Rejected
  then show ?thesis by (auto simp: checkUserStatus_try_def js_throw_def)
next
  case NoDocument
  then show ?thesis by (simp add: checkUserStatus_try_def console_log_def)
next
  case (Document u)
  show ?thesis
  proof (cases "trialEndDate u = ToDateNotCallable \<or> subscriptionEndDate u = ToDateNotCallable")
    case True
    then show ?thesis using Document
      by (cases "trialEndDate u")
        (auto simp: checkUserStatus_try_def js_bind_def js_lift_def)
  next
    case False
    then obtain a b where "read_timestamp (trialEndDate u) = Inr a"
      "read_timestamp (subscriptionEndDate u) = Inr b"
      by (cases "trialEndDate u"; cases "subscriptionEndDate u") auto
    then show ?thesis using Document False
      by (simp add: checkUserStatus_try_def js_bind_def js_lift_def set_progs_complete
          split: option.splits)
  qed
qed

lemma try_throw_state:
  "fst (checkUserStatus_try userSnap now s) = Inl e \<Longrightarrow>
   snd (checkUserStatus_try userSnap now s) = s"
  unfolding try_throws_iff
  by (auto simp: checkUserStatus_try_def js_throw_def js_bind_def js_lift_def
      split: sum.splits)

text \<open>Away from zero seconds the sidebar reads both representations of an instant alike.\<close>

lemma checkUserStatus_representation:
  "n \<noteq> 0 \<Longrightarrow>
   checkUserStatus (Document (u\<lparr>trialEndDate := RawSeconds n\<rparr>)) now s =
     checkUserStatus (Document (u\<lparr>trialEndDate := Convertible (n * 1000)\<rparr>)) now s \<and>
   checkUserStatus (Document (u\<lparr>subscriptionEndDate := RawSeconds n\<rparr>)) now s =
     checkUserStatus (Document (u\<lparr>subscriptionEndDate := Convertible (n * 1000)\<rparr>)) now s"
  by (simp add: checkUserStatus_def checkUserStatus_try_def js_bind_def js_lift_def
      cong: option.case_cong)



text \<open>C10. If the \<open>try\<close> block of \<open>checkUserStatus\<close> throws, whether in the fetch or in
  the derivation, then \<open>trialInfo\<close> and \<open>subscription\<close> are what they were before the
  call: the call completes, and the state differs only by the error written to the
  console.\<close>

theorem failed_check_keeps_state:
  assumes "fst (checkUserStatus_try userSnap now s) = Inl e"
  shows "trialInfo (snd (checkUserStatus userSnap now s)) = trialInfo s \<and>
         subscription (snd (checkUserStatus userSnap now s)) = subscription s \<and>
         checkUserStatus userSnap now s =
           (Inr (), s\<lparr>console := console s @ [LogError ''Error checking user status:'' e]\<rparr>)"
proof -
  obtain r s1 where r: "checkUserStatus_try userSnap now s = (r, s1)"
    by (cases "checkUserStatus_try userSnap now s")
  with assms try_throw_state[OF assms] have "r = Inl e" "s1 = s" by simp_all
  with r show ?thesis
    by (simp add: checkUserStatus_def try_catch_def console_error_def)
qed

text \<open>C10 on a rejected fetch.\<close>

theorem failed_check_keeps_state_witness:
  "checkUserStatus Rejected 0 sidebar_init =
     (Inr (), sidebar_init\<lparr>console := [LogError ''Error checking user status:'' FetchError]\<rparr>)"
proof -
  have h: "fst (checkUserStatus_try Rejected 0 sidebar_init) = Inl FetchError"
    by (simp add: checkUserStatus_try_def js_throw_def)
  have "console sidebar_init = []" by (simp add: sidebar_init_def)
  with failed_check_keeps_state[OF h] show ?thesis by simp
qed

section \<open>Navigation renderer: properties\<close>

text \<open>C7. In every state with \<open>trialEnded\<close> true and no active subscription, every entry
  other than Settings is disabled: it renders as a link to \<open>#\<close> (in the disabled style
  unless it is the entry of the current page), and a click on it navigates nowhere and
  changes nothing. Settings is disabled in no state \<open>s0\<close>, this one included: its button
  is enabled, a click toggles the sub-entries, which are shown with their own targets,
  and a click on a sub-entry navigates to its target.\<close>

theorem expired_nav_disabled:
  assumes "trialEnded (trialInfo s)" and "\<not> isActive (subscription s)"
  shows "(\<forall>link\<in>set businessLinks. name link \<noteq> ''Settings'' \<longrightarrow>
            isDisabled s link \<and>
            render_entry pathname s link = RLink ''#'' (entry_style_of pathname s link) \<and>
            (pathname \<noteq> href link \<longrightarrow> entry_style_of pathname s link = DisabledStyle) \<and>
            click_entry s link = (None, s)) \<and>
         (\<forall>link\<in>set businessLinks. name link = ''Settings'' \<longrightarrow>
            \<not> isDisabled s0 link \<and>
            render_entry pathname s0 link =
              RButton False (entry_style_of pathname s0 link)
                (if settingsOpen s0 \<or> shouldKeepSettingsOpen pathname
                 then [''/components/business/settings/account'',
                       ''/components/business/settings/location'',
                       ''/components/business/settings/businessusers'']
                 else []) \<and>
            click_entry s0 link = (None, s0\<lparr>settingsOpen := \<not> settingsOpen s0\<rparr>)) \<and>
         click_sub_link s0 subLink = (Some (sl_href subLink), s0\<lparr>sheetOpen := False\<rparr>)"
  using assms
  by (simp add: businessLinks_def isDisabled_def render_entry_def click_entry_def
      click_sub_link_def entry_style_of_def)

text \<open>C7 in the state derived for a user with neither a subscription nor a trial.\<close>

theorem expired_nav_witness:
  "render_entry ''/pricing''
     (snd (checkUserStatus (Document (example_user TsMissing None TsMissing None)) 0 sidebar_init))
     \<lparr> name = ''Reviews'', href = ''/components/business/reviews'', subLinks = None \<rparr>
     = RLink ''#'' DisabledStyle \<and>
   fst (click_entry
     (snd (checkUserStatus (Document (example_user TsMissing None TsMissing None)) 0 sidebar_init))
     \<lparr> name = ''Reviews'', href = ''/components/business/reviews'', subLinks = None \<rparr>) = None \<and>
   \<not> isDisabled
     (snd (checkUserStatus (Document (example_user TsMissing None TsMissing None)) 0 sidebar_init))
     (last businessLinks)"
proof -
  let ?s = "snd (checkUserStatus (Document (example_user TsMissing None TsMissing None)) 0
              sidebar_init)"
  let ?l = "\<lparr> name = ''Reviews'', href = ''/components/business/reviews'', subLinks = None \<rparr>"
  have s: "?s = sidebar_init\<lparr>trialInfo := \<lparr> ti_daysLeft = 0, isTrial = False, trialEnded = True,
                       hasSubscription = False \<rparr>,
               subscription := \<lparr> planName = [], sub_daysLeft = 0, endDate = None,
                               isActive = False \<rparr>\<rparr>"
    by (simp add: checkUserStatus_document[of _ None None] example_user_def set_expired_state)
  have h1: "trialEnded (trialInfo ?s)" and h2: "\<not> isActive (subscription ?s)"
    by (simp_all add: s)
  have m: "?l \<in> set businessLinks" "last businessLinks \<in> set businessLinks"
    "name ?l \<noteq> ''Settings''" "name (last businessLinks) = ''Settings''"
    "''/pricing'' \<noteq> href ?l"
    by (simp_all add: businessLinks_def)
  from expired_nav_disabled[OF h1 h2, where pathname = "''/pricing''" and ?s0.0 = ?s] m
  show ?thesis
    by (metis fst_conv)
qed

section \<open>Access guard and missing documents: properties\<close>




text \<open>C5, amended. For an authenticated user whose document does not exist: the
  dashboard's loader navigates to \<open>/login\<close> and clears the loading flag; the access guard
  takes it as no access and navigates to \<open>/pricing\<close>; the sidebar logs a message and
  changes nothing else.\<close>

theorem missing_document_handling:
  "loader_onAuth (Some uid) NoDocument reviewDocs st =
     st\<lparr>navigations := navigations st @ [''/login''], loading := False\<rparr> \<and>
   guard_onAuth (Some uid) NoDocument now = Inr [''/pricing''] \<and>
   checkUserStatus NoDocument now s =
     (Inr (), s\<lparr>console := console s @ [Log ''No user document found'']\<rparr>)"
  by (simp add: loader_onAuth_def guard_onAuth_def checkSubscription_def checkUserStatus_def
      checkUserStatus_try_def try_catch_def console_log_def)

text \<open>C5, amended, from the initial states.\<close>

theorem missing_document_witness:
  "navigations (loader_onAuth (Some ''u1'') NoDocument None dashboard_init) = [''/login''] \<and>
   guard_onAuth (Some ''u1'') NoDocument 0 = Inr [''/pricing''] \<and>
   redirects (snd (checkUserStatus NoDocument 0 sidebar_init)) = []"
  using missing_document_handling[of "''u1''" None dashboard_init 0 sidebar_init]
  by (simp add: dashboard_init_def sidebar_init_def)

text \<open>C5 as stated fails in the access guard, which navigates to \<open>/pricing\<close> and not
  to \<open>/login\<close>, and in the sidebar, which navigates nowhere.\<close>

theorem missing_document_counterexample:
  "guard_onAuth (Some ''u1'') NoDocument 0 \<noteq> Inr [''/login''] \<and>
   guard_onAuth (Some ''u1'') NoDocument 0 = Inr [''/pricing''] \<and>
   redirects (snd (checkUserStatus NoDocument 0 sidebar_init)) = [] \<and>
   trialInfo (snd (checkUserStatus NoDocument 0 sidebar_init)) = trialInfo sidebar_init"
  by (simp add: guard_onAuth_def checkSubscription_def checkUserStatus_def
      checkUserStatus_try_def try_catch_def console_log_def sidebar_init_def)

text \<open>C6. A trial end given as \<open>{ seconds: 2000000000 }\<close>, at \<open>now = 1900000000000\<close>:
  \<open>checkSubscription\<close> calls \<open>toDate\<close> on it and throws a \<open>TypeError\<close>, while the same
  instant given with \<open>toDate\<close> grants access; the sidebar reads both alike. At zero
  seconds the sidebar reads the record as absent and the convertible value as the
  epoch.\<close>

theorem guard_rejects_raw_seconds:
  "checkSubscription (Document (example_user (RawSeconds 2000000000) None TsMissing None))
     1900000000000 = Inl TypeError \<and>
   checkSubscription (Document (example_user (Convertible 2000000000000) None TsMissing None))
     1900000000000 = Inr True \<and>
   read_timestamp (RawSeconds 2000000000) = read_timestamp (Convertible 2000000000000) \<and>
   read_timestamp (RawSeconds 0) = Inr None \<and>
   read_timestamp (Convertible 0) = Inr (Some 0)"
  by (simp add: checkSubscription_def example_user_def)

end
